theory Spec2Isabelle
  imports Complex_Main "HOL-Library.Log_Nat"
begin

section \<open>The AprilTag tracking pipeline of vision/main.cpp\<close>

text \<open>
  The program is four threads (capture, low-resolution detection, high-resolution pose,
  visualisation) that hand values to each other through three single-slot mailboxes, each
  of them a shared pointer guarded by a mutex and signalled through a condition variable,
  and one atomic flag \<open>running\<close>.

  Conventions of the embedding:
  \<^item> a C++ \<open>int\<close> is an \<open>int\<close>: the pixel coordinates of the program are far from the
    32-bit bounds, and signed overflow has no defined result in C++ that could be written out;
  \<^item> a finite \<open>double\<close> or \<open>float\<close> is the \<open>real\<close> it stands for, and every arithmetic
    operation and conversion of the stages rounds its exact result to the nearest
    \<open>double\<close> (\<open>to_double\<close>) or \<open>float\<close> (\<open>to_float\<close>), ties to even;
  \<^item> a \<open>double\<close> that comes back from the geometry solver is a \<open>dbl\<close>, which also has the
    non-finite values;
  \<^item> the calls into the AprilTag detector and into OpenCV's geometry functions are
    inputs of the model: the detections of a cycle are an argument of the cycle, the
    geometry functions are fields of a record \<open>geometry\<close>;
  \<^item> a mutex-protected section is one atomic step. A schedule interleaves whole loop
    iterations of the three consumer threads, and for the capture thread the test of its
    loop and the pull that follows, which can lie 100 ms apart, as two steps.
\<close>

subsection \<open>Rounding to \<open>double\<close> and \<open>float\<close>\<close>

text \<open>
  \<open>binade x\<close> is the exponent \<open>e\<close> with \<open>2 ^ e \<le> x < 2 ^ (e + 1)\<close>, for a positive \<open>x\<close>.
\<close>

definition binade :: "real \<Rightarrow> int" where
  "binade x =
     (if 1 \<le> x then int (floorlog 2 (nat \<lfloor>x\<rfloor>)) - 1
      else - int (floorlog 2 (nat (\<lceil>1 / x\<rceil> - 1))))"

text \<open>The nearest whole number; of two equally near ones, the even one.\<close>

definition round_even :: "real \<Rightarrow> int" where
  "round_even y =
     (if y - of_int \<lfloor>y\<rfloor> < 1 / 2 then \<lfloor>y\<rfloor>
      else if 1 / 2 < y - of_int \<lfloor>y\<rfloor> then \<lfloor>y\<rfloor> + 1
      else if even \<lfloor>y\<rfloor> then \<lfloor>y\<rfloor> else \<lfloor>y\<rfloor> + 1)"

text \<open>
  The nearest number with a significand of \<open>p\<close> bits. The range of the exponent is not
  limited: the magnitudes the stages compute with are far from both of its ends.
\<close>

definition round_to :: "nat \<Rightarrow> real \<Rightarrow> real" where
  "round_to p x =
     (if x = 0 then 0
      else (let u = 2 powi (binade \<bar>x\<bar> - (int p - 1))
            in of_int (round_even (x / u)) * u))"

definition to_double :: "real \<Rightarrow> real" where
  "to_double = round_to 53"

definition to_float :: "real \<Rightarrow> real" where
  "to_float = round_to 24"

subsection \<open>Config (lines 20-24)\<close>

definition LOW_W :: int where
  "LOW_W = 640"

definition LOW_H :: int where
  "LOW_H = 480"

definition ROI_PAD :: int where
  "ROI_PAD = 80"

definition TAG_SIZE :: real where
  "TAG_SIZE = to_double 0.1552"

subsection \<open>Shared data structs (lines 29-46)\<close>

text \<open>Of a \<open>cv::Mat\<close> the stages themselves read only the dimensions; both are never negative.\<close>

record Mat =
  cols :: nat
  rows :: nat

record FrameData =
  frame :: Mat
  t_cam_ns :: int

text \<open>\<open>cv::Rect\<close>: origin, width and height, all of type \<open>int\<close>.\<close>

record Rect =
  rect_x :: int
  rect_y :: int
  rect_width :: int
  rect_height :: int

record ROIResult =
  rr_data :: FrameData
  rr_roi :: Rect
  rr_valid :: bool

datatype dbl = Finite real | PosInf | NegInf | NaN

type_synonym Vec3d = "dbl \<times> dbl \<times> dbl"

record PoseResult =
  pr_data :: FrameData
  pr_tvec :: Vec3d
  pr_yaw :: dbl
  pr_roi :: Rect
  pr_valid :: bool

subsection \<open>The single-slot mailbox\<close>

text \<open>
  Each of \<open>cap_frame\<close>, \<open>roi_result\<close> and \<open>pose_result\<close> is a shared pointer (null when
  empty) with its own mutex and condition variable, written and read by the same three
  pieces of code. The slot is an option; \<open>waiting\<close> says that the one consumer of the
  mailbox is suspended inside \<open>wait\<close> on the condition variable. A suspended thread runs
  again only after a \<open>notify\<close> on that condition variable (spurious wake-ups, which C++
  permits but never promises, are left out).
\<close>

record 'a mailbox =
  slot :: "'a option"
  waiting :: bool

datatype 'a taken = WouldBlock | Stopped | Took 'a

text \<open>
  The producer side, as in lines 108-112, 174-178 and 255-259: store under the lock, then
  \<open>notify_one\<close>, which resumes the consumer when it is suspended.
\<close>

definition publish :: "'a \<Rightarrow> 'a mailbox \<Rightarrow> 'a mailbox" where
  "publish v mb = \<lparr>slot = Some v, waiting = False\<rparr>"

text \<open>
  The consumer side, as in lines 128-134, 198-204 and 274-280:
  \<open>cv.wait(lk, [] { return slot || !running; }); if (!running) break;
  v = slot; slot.reset();\<close>.
  A consumer that is suspended stays so; one that finds the predicate false suspends; one
  that finds the flag cleared leaves its loop (also at the loop head \<open>while (running)\<close>,
  with the same result); otherwise it takes the value and empties the slot.
\<close>

definition waitAndTake :: "bool \<Rightarrow> 'a mailbox \<Rightarrow> 'a taken \<times> 'a mailbox" where
  "waitAndTake run mb =
     (if waiting mb then (WouldBlock, mb)
      else (case slot mb of
              None \<Rightarrow> (if run then (WouldBlock, mb\<lparr>waiting := True\<rparr>) else (Stopped, mb))
            | Some v \<Rightarrow> (if run then (Took v, mb\<lparr>slot := None\<rparr>) else (Stopped, mb))))"

text \<open>
  The globals of lines 51-58 and, with them, where the capture thread stands:
  \<open>capture_in_pull\<close> says that it has passed the test of line 84 and has not yet come
  back from the pull of lines 85-86.
\<close>

record pipeline =
  running :: bool
  cap_frame :: "FrameData mailbox"
  roi_result :: "ROIResult mailbox"
  pose_result :: "PoseResult mailbox"
  capture_in_pull :: bool

definition empty_mailbox :: "'a mailbox" where
  "empty_mailbox = \<lparr>slot = None, waiting = False\<rparr>"

definition initial :: pipeline where
  "initial = \<lparr>running = True, cap_frame = empty_mailbox,
               roi_result = empty_mailbox, pose_result = empty_mailbox,
               capture_in_pull = False\<rparr>"

text \<open>What one step of a stage's loop did.\<close>

datatype 'a outcome =
  Blocked | Terminated | Pulling | Timeout | SkipInvalid | NoDetection | Published 'a

subsection \<open>Capture thread (lines 82-114)\<close>

text \<open>
  A pulled sample gives the negotiated width and height and the buffer's presentation
  time stamp; \<open>None\<close> is the 100 ms time-out of \<open>gst_app_sink_try_pull_sample\<close>.
\<close>

record GstSample =
  sample_width :: nat
  sample_height :: nat
  sample_pts :: int

text \<open>
  The next step of the capture thread. At the head of the loop it tests \<open>running\<close>
  (line 84) and either enters the pull or leaves the loop. Inside the pull it gets
  \<open>sample\<close>: on a time-out it goes back to the head of the loop (line 87), on a frame it
  copies, publishes and notifies (lines 89-112) and goes back to the head; \<open>running\<close> is
  not read again on the way. \<open>sample\<close> is not looked at in the step of the test.
\<close>

definition captureThread_step :: "GstSample option \<Rightarrow> pipeline \<Rightarrow> FrameData outcome \<times> pipeline" where
  "captureThread_step sample s =
     (if \<not> capture_in_pull s
      then (if running s then (Pulling, s\<lparr>capture_in_pull := True\<rparr>) else (Terminated, s))
      else (case sample of
              None \<Rightarrow> (Timeout, s\<lparr>capture_in_pull := False\<rparr>)
            | Some smp \<Rightarrow>
                (let fd = \<lparr>frame = \<lparr>cols = sample_width smp, rows = sample_height smp\<rparr>,
                           t_cam_ns = sample_pts smp\<rparr>
                 in (Published fd,
                     s\<lparr>cap_frame := publish fd (cap_frame s), capture_in_pull := False\<rparr>))))"

subsection \<open>Low-res thread (lines 119-185)\<close>

text \<open>The two fields of \<open>apriltag_detector_t\<close> that the program sets.\<close>

record apriltag_detector =
  quad_decimate :: real
  nthreads :: nat

text \<open>Lines 121-125; the argument is what \<open>apriltag_detector_create\<close> returns.\<close>

definition lowRes_detector :: "apriltag_detector \<Rightarrow> apriltag_detector" where
  "lowRes_detector td = td\<lparr>quad_decimate := 1.0, nthreads := 1\<rparr>"

text \<open>\<open>apriltag_detection_t\<close>: the four corners \<open>p[0..3]\<close>, each an (x, y) pair of doubles.\<close>

type_synonym Point2 = "real \<times> real"

datatype apriltag_detection = Detection Point2 Point2 Point2 Point2

fun det_p :: "apriltag_detection \<Rightarrow> Point2 list" where
  "det_p (Detection a b c d) = [a, b, c, d]"

text \<open>Lines 153-159: the loop over the four corners, from the sentinels \<open>1e9\<close> and \<open>-1e9\<close>.\<close>

fun bbox_loop :: "Point2 list \<Rightarrow> real \<times> real \<times> real \<times> real \<Rightarrow> real \<times> real \<times> real \<times> real" where
  "bbox_loop [] acc = acc"
| "bbox_loop ((px, py) # ps) (minx, miny, maxx, maxy) =
     bbox_loop ps (min minx px, min miny py, max maxx px, max maxy py)"

definition bbox :: "apriltag_detection \<Rightarrow> real \<times> real \<times> real \<times> real" where
  "bbox det = bbox_loop (det_p det) (1000000000, 1000000000, - 1000000000, - 1000000000)"

text \<open>The conversion \<open>int(v)\<close> of a double: truncation toward zero.\<close>

definition to_int :: "real \<Rightarrow> int" where
  "to_int v = (if 0 \<le> v then \<lfloor>v\<rfloor> else \<lceil>v\<rceil>)"

text \<open>
  Lines 161-162: the scale factors, computed in \<open>float\<close>: the dimension is converted to
  \<open>float\<close> and divided by the constant. \<open>gray\<close> has the dimensions of the frame
  (\<open>cvtColor\<close> keeps them).
\<close>

definition scale_x :: "Mat \<Rightarrow> real" where
  "scale_x gray = to_float (to_float (real (cols gray)) / real_of_int LOW_W)"

definition scale_y :: "Mat \<Rightarrow> real" where
  "scale_y gray = to_float (to_float (real (rows gray)) / real_of_int LOW_H)"

text \<open>
  Lines 166-170: the first operand of the intersection. The products and the differences
  are computed in \<open>double\<close>, each rounded, and then converted to \<open>int\<close>.
\<close>

definition roi_unclipped :: "Mat \<Rightarrow> apriltag_detection \<Rightarrow> Rect" where
  "roi_unclipped gray det =
     (case bbox det of (minx, miny, maxx, maxy) \<Rightarrow>
        (let sx = scale_x gray;
             sy = scale_y gray
         in \<lparr>rect_x = to_int (to_double (minx * sx)) - ROI_PAD,
             rect_y = to_int (to_double (miny * sy)) - ROI_PAD,
             rect_width = to_int (to_double (to_double (maxx - minx) * sx)) + 2 * ROI_PAD,
             rect_height = to_int (to_double (to_double (maxy - miny) * sy)) + 2 * ROI_PAD\<rparr>))"

text \<open>
  OpenCV's \<open>operator&\<close> on rectangles: the intersection, and the default rectangle
  \<open>Rect()\<close> (all four fields 0) when the intersection has no area.
\<close>

definition rect_and :: "Rect \<Rightarrow> Rect \<Rightarrow> Rect" where
  "rect_and a b =
     (let x1 = max (rect_x a) (rect_x b);
          y1 = max (rect_y a) (rect_y b);
          w = min (rect_x a + rect_width a) (rect_x b + rect_width b) - x1;
          h = min (rect_y a + rect_height a) (rect_y b + rect_height b) - y1
      in if w \<le> 0 \<or> h \<le> 0
         then \<lparr>rect_x = 0, rect_y = 0, rect_width = 0, rect_height = 0\<rparr>
         else \<lparr>rect_x = x1, rect_y = y1, rect_width = w, rect_height = h\<rparr>)"

definition rect_is_empty :: "Rect \<Rightarrow> bool" where
  "rect_is_empty r = (rect_width r \<le> 0 \<or> rect_height r \<le> 0)"

definition frame_rect :: "Mat \<Rightarrow> Rect" where
  "frame_rect gray =
     \<lparr>rect_x = 0, rect_y = 0, rect_width = int (cols gray), rect_height = int (rows gray)\<rparr>"

text \<open>
  Lines 144-172, for the frame taken from the mailbox and the detections that the
  detector returned for it: nothing on an empty list, otherwise the result built from
  detection 0.
\<close>

definition lowRes_cycle :: "apriltag_detection list \<Rightarrow> FrameData \<Rightarrow> ROIResult option" where
  "lowRes_cycle dets fd =
     (case dets of
        [] \<Rightarrow> None
      | det # _ \<Rightarrow>
          Some \<lparr>rr_data = fd,
                rr_roi = rect_and (roi_unclipped (frame fd) det) (frame_rect (frame fd)),
                rr_valid = True\<rparr>)"

text \<open>One iteration of the loop of lines 127-181.\<close>

definition lowResThread_iter :: "apriltag_detection list \<Rightarrow> pipeline \<Rightarrow> ROIResult outcome \<times> pipeline" where
  "lowResThread_iter dets s =
     (case waitAndTake (running s) (cap_frame s) of
        (WouldBlock, mb) \<Rightarrow> (Blocked, s\<lparr>cap_frame := mb\<rparr>)
      | (Stopped, mb) \<Rightarrow> (Terminated, s\<lparr>cap_frame := mb\<rparr>)
      | (Took fd, mb) \<Rightarrow>
          (case lowRes_cycle dets fd of
             None \<Rightarrow> (NoDetection, s\<lparr>cap_frame := mb\<rparr>)
           | Some rr \<Rightarrow>
               (Published rr, s\<lparr>cap_frame := mb, roi_result := publish rr (roi_result s)\<rparr>)))"

subsection \<open>High-res thread (lines 190-266)\<close>

text \<open>Lines 192-195: only \<open>quad_decimate\<close> is set; the worker count stays the library's.\<close>

definition highRes_detector :: "apriltag_detector \<Rightarrow> apriltag_detector" where
  "highRes_detector td = td\<lparr>quad_decimate := 3.0\<rparr>"

type_synonym Point3 = "real \<times> real \<times> real"

text \<open>
  What \<open>cv::solvePnP\<close> gives back: its boolean return value, which line 241 discards, and
  the two output vectors.
\<close>

record solve_result =
  solve_ok :: bool
  solve_rvec :: Vec3d
  solve_tvec :: Vec3d

text \<open>
  The geometry functions the stage calls: \<open>cv::solvePnP\<close> (object points, image points,
  intrinsic matrix, distortion coefficients), \<open>cv::Rodrigues\<close> (the rotation matrix, read
  by row and column) and \<open>atan2\<close>.
\<close>

record geometry =
  solvePnP :: "Point3 list \<Rightarrow> Point2 list \<Rightarrow> real list list \<Rightarrow> real list \<Rightarrow> solve_result"
  Rodrigues :: "Vec3d \<Rightarrow> nat \<Rightarrow> nat \<Rightarrow> dbl"
  atan2 :: "dbl \<Rightarrow> dbl \<Rightarrow> dbl"

text \<open>Lines 233-238: half the tag size, computed in \<open>double\<close> and stored as \<open>float\<close>.\<close>

definition half_tag :: real where
  "half_tag = to_float (to_double (TAG_SIZE / 2))"

definition obj_pts :: "Point3 list" where
  "obj_pts = [(- half_tag, - half_tag, 0), (half_tag, - half_tag, 0),
              (half_tag, half_tag, 0), (- half_tag, half_tag, 0)]"

text \<open>
  Lines 226-231: the corners of the detection, moved by the origin of the ROI; the sum is
  computed in \<open>double\<close> and stored as \<open>float\<close>.
\<close>

definition img_pts :: "Rect \<Rightarrow> apriltag_detection \<Rightarrow> Point2 list" where
  "img_pts r det =
     map (\<lambda>(px, py). (to_float (to_double (px + real_of_int (rect_x r))),
                        to_float (to_double (py + real_of_int (rect_y r))))) (det_p det)"

text \<open>
  The factor \<open>* 180.0 / CV_PI\<close> of lines 245-246, on a double that may be non-finite:
  a product and a quotient in \<open>double\<close>. \<open>CV_PI\<close> is the \<open>double\<close> of OpenCV's decimal
  constant.
\<close>

definition CV_PI :: real where
  "CV_PI = to_double 3.1415926535897932384626433832795"

fun times_180_over_pi :: "dbl \<Rightarrow> dbl" where
  "times_180_over_pi (Finite a) = Finite (to_double (to_double (a * 180) / CV_PI))"
| "times_180_over_pi PosInf = PosInf"
| "times_180_over_pi NegInf = NegInf"
| "times_180_over_pi NaN = NaN"

text \<open>
  Lines 206-253, for the result taken from the mailbox and the detections that the
  detector returned on the cropped image.
\<close>

definition highRes_cycle ::
  "geometry \<Rightarrow> real list list \<Rightarrow> real list \<Rightarrow> apriltag_detection list \<Rightarrow> ROIResult
     \<Rightarrow> PoseResult outcome" where
  "highRes_cycle geo K D dets rr =
     (if \<not> rr_valid rr then SkipInvalid
      else (case dets of
              [] \<Rightarrow> NoDetection
            | det # _ \<Rightarrow>
                (let sr = solvePnP geo obj_pts (img_pts (rr_roi rr) det) K D;
                     R = Rodrigues geo (solve_rvec sr);
                     yaw = times_180_over_pi (atan2 geo (R 1 0) (R 0 0))
                 in Published \<lparr>pr_data = rr_data rr, pr_tvec = solve_tvec sr, pr_yaw = yaw,
                                pr_roi = rr_roi rr, pr_valid = True\<rparr>)))"

text \<open>One iteration of the loop of lines 197-262.\<close>

definition highResThread_iter ::
  "geometry \<Rightarrow> real list list \<Rightarrow> real list \<Rightarrow> apriltag_detection list \<Rightarrow> pipeline
     \<Rightarrow> PoseResult outcome \<times> pipeline" where
  "highResThread_iter geo K D dets s =
     (case waitAndTake (running s) (roi_result s) of
        (WouldBlock, mb) \<Rightarrow> (Blocked, s\<lparr>roi_result := mb\<rparr>)
      | (Stopped, mb) \<Rightarrow> (Terminated, s\<lparr>roi_result := mb\<rparr>)
      | (Took rr, mb) \<Rightarrow>
          (case highRes_cycle geo K D dets rr of
             Published pr \<Rightarrow>
               (Published pr, s\<lparr>roi_result := mb, pose_result := publish pr (pose_result s)\<rparr>)
           | out \<Rightarrow> (out, s\<lparr>roi_result := mb\<rparr>)))"

subsection \<open>Visualization thread (lines 271-301)\<close>

text \<open>
  One iteration of the loop; \<open>key\<close> is what \<open>cv::waitKey(1)\<close> returns, and 113 is the
  character \<open>q\<close>. \<open>Published pr\<close> says that \<open>pr\<close> was drawn and shown. Quitting is the
  single store \<open>running = false\<close> of line 299.
\<close>

definition visThread_iter :: "int \<Rightarrow> pipeline \<Rightarrow> PoseResult outcome \<times> pipeline" where
  "visThread_iter key s =
     (case waitAndTake (running s) (pose_result s) of
        (WouldBlock, mb) \<Rightarrow> (Blocked, s\<lparr>pose_result := mb\<rparr>)
      | (Stopped, mb) \<Rightarrow> (Terminated, s\<lparr>pose_result := mb\<rparr>)
      | (Took pr, mb) \<Rightarrow>
          (if \<not> pr_valid pr then (SkipInvalid, s\<lparr>pose_result := mb\<rparr>)
           else (Published pr,
                 if key = 113 then s\<lparr>pose_result := mb, running := False\<rparr>
                 else s\<lparr>pose_result := mb\<rparr>)))"

subsection \<open>Interleavings of the four threads\<close>

text \<open>
  A schedule names, step by step, the thread that runs its next step, with what the
  outside world hands it in that step.
\<close>

datatype action =
    Capture "GstSample option"
  | LowRes "apriltag_detection list"
  | HighRes "apriltag_detection list"
  | Vis int

fun step :: "geometry \<Rightarrow> real list list \<Rightarrow> real list \<Rightarrow> pipeline \<Rightarrow> action \<Rightarrow> pipeline" where
  "step geo K D s (Capture sample) = snd (captureThread_step sample s)"
| "step geo K D s (LowRes dets) = snd (lowResThread_iter dets s)"
| "step geo K D s (HighRes dets) = snd (highResThread_iter geo K D dets s)"
| "step geo K D s (Vis key) = snd (visThread_iter key s)"

definition run :: "geometry \<Rightarrow> real list list \<Rightarrow> real list \<Rightarrow> action list \<Rightarrow> pipeline \<Rightarrow> pipeline" where
  "run geo K D acts s = foldl (step geo K D) s acts"

section \<open>Properties to be compared with the program\<close>





text \<open>Every value that waits in mailbox B or C carries \<open>valid = true\<close>.\<close>

definition all_valid :: "pipeline \<Rightarrow> bool" where
  "all_valid s =
     ((case slot (roi_result s) of None \<Rightarrow> True | Some rr \<Rightarrow> rr_valid rr)
      \<and> (case slot (pose_result s) of None \<Rightarrow> True | Some pr \<Rightarrow> pr_valid pr))"

text \<open>The flag is cleared while the high-res thread is suspended in its wait.\<close>

definition highRes_stuck :: "pipeline \<Rightarrow> bool" where
  "highRes_stuck s = (\<not> running s \<and> waiting (roi_result s))"




subsection \<open>Concrete inputs\<close>

text \<open>A 640 x 480 frame, for which both scale factors are 1.\<close>

definition sample_low :: GstSample where
  "sample_low = \<lparr>sample_width = 640, sample_height = 480, sample_pts = 1000\<rparr>"

definition frame_low :: FrameData where
  "frame_low = \<lparr>frame = \<lparr>cols = 640, rows = 480\<rparr>, t_cam_ns = 1000\<rparr>"

text \<open>A marker near the lower right corner of the frame, on whole pixels.\<close>

definition det_inside :: apriltag_detection where
  "det_inside = Detection (600, 400) (630, 400) (630, 470) (600, 470)"

text \<open>Corner coordinates far to the left of the frame.\<close>

definition det_outside :: apriltag_detection where
  "det_outside = Detection (- 300, 10) (- 290, 10) (- 290, 20) (- 300, 20)"


text \<open>The intrinsic matrix and the distortion coefficients of lines 322-328, divider 2.\<close>

definition K_main :: "real list list" where
  "K_main = map (map to_double)
     [[4009.22661 / 2, 0, 2113.49677 / 2], [0, 4020.48344 / 2, 1469.08894 / 2], [0, 0, 1]]"

definition D_main :: "real list" where
  "D_main = map to_double [- 0.49106571, 0.283421, 0.00061827, - 0.00242921, - 0.09694459]"

text \<open>The detector as the library creates it.\<close>

definition detector_default :: apriltag_detector where
  "detector_default = \<lparr>quad_decimate = 2.0, nthreads = 1\<rparr>"

text \<open>A solver that reports failure and hands back non-finite vectors.\<close>

definition geometry_failing :: geometry where
  "geometry_failing =
     \<lparr>solvePnP = (\<lambda>obj img K D. \<lparr>solve_ok = False, solve_rvec = (NaN, NaN, NaN),
                                  solve_tvec = (NaN, NaN, NaN)\<rparr>),
      Rodrigues = (\<lambda>rvec i j. NaN),
      atan2 = (\<lambda>a b. NaN)\<rparr>"

text \<open>A solver that finds the marker half a metre ahead, not rotated.\<close>

definition geometry_frontal :: geometry where
  "geometry_frontal =
     \<lparr>solvePnP = (\<lambda>obj img K D. \<lparr>solve_ok = True, solve_rvec = (Finite 0, Finite 0, Finite 0),
                                  solve_tvec = (Finite 0, Finite 0, Finite (1 / 2))\<rparr>),
      Rodrigues = (\<lambda>rvec i j. Finite (if i = j then 1 else 0)),
      atan2 = (\<lambda>a b. Finite 0)\<rparr>"


definition roi_inside :: ROIResult where
  "roi_inside = \<lparr>rr_data = frame_low,
                  rr_roi = \<lparr>rect_x = 520, rect_y = 320, rect_width = 120, rect_height = 160\<rparr>,
                  rr_valid = True\<rparr>"

definition roi_collapsed :: ROIResult where
  "roi_collapsed = \<lparr>rr_data = frame_low,
                     rr_roi = \<lparr>rect_x = 0, rect_y = 0, rect_width = 0, rect_height = 0\<rparr>,
                     rr_valid = True\<rparr>"

definition pose_nan :: PoseResult where
  "pose_nan = \<lparr>pr_data = frame_low, pr_tvec = (NaN, NaN, NaN), pr_yaw = NaN,
                pr_roi = \<lparr>rect_x = 520, rect_y = 320, rect_width = 120, rect_height = 160\<rparr>,
                pr_valid = True\<rparr>"

definition pose_frontal :: PoseResult where
  "pose_frontal = \<lparr>pr_data = frame_low, pr_tvec = (Finite 0, Finite 0, Finite (1 / 2)),
                    pr_yaw = Finite 0,
                    pr_roi = \<lparr>rect_x = 520, rect_y = 320, rect_width = 120, rect_height = 160\<rparr>,
                    pr_valid = True\<rparr>"


definition with_frame :: pipeline where
  "with_frame = initial\<lparr>cap_frame := \<lparr>slot = Some frame_low, waiting = False\<rparr>\<rparr>"

definition with_roi :: pipeline where
  "with_roi = initial\<lparr>roi_result := \<lparr>slot = Some roi_inside, waiting = False\<rparr>\<rparr>"

definition with_pose :: pipeline where
  "with_pose = initial\<lparr>pose_result := \<lparr>slot = Some pose_frontal, waiting = False\<rparr>\<rparr>"

text \<open>
  A schedule that ends with the key \<open>q\<close>: the two middle stages suspend on their empty
  mailboxes, the capture thread passes its test and pulls a frame, the frame goes through
  the pipeline, the two middle stages suspend again, the capture thread passes its test
  once more and waits in the pull, and the visualisation thread shows the pose and reads
  the key.
\<close>

definition quit_schedule :: "action list" where
  "quit_schedule =
     [LowRes [], HighRes [], Capture None, Capture (Some sample_low), LowRes [det_inside],
      HighRes [det_inside], LowRes [], HighRes [], Capture None, Vis 113]"

text \<open>The pipeline after that schedule.\<close>

definition after_quit :: pipeline where
  "after_quit = run geometry_frontal K_main D_main quit_schedule initial"

section \<open>Auxiliary facts\<close>

subsection \<open>Rounding\<close>

lemma binade_ge1:
  assumes "1 \<le> x"
  shows "2 powi binade x \<le> x \<and> x < 2 powi (binade x + 1)"
proof -
  define n where "n = nat \<lfloor>x\<rfloor>"
  define fl where "fl = floorlog 2 n"
  have n1: "1 \<le> n" using assms by (simp add: n_def le_nat_iff le_floor_iff)
  have b: "2 ^ (fl - 1) \<le> n" "n < 2 ^ fl"
    using floorlog_bounds [of n 2] n1 by (simp_all add: fl_def)
  have fl1: "1 \<le> fl" using b(2) n1 by (cases fl) simp_all
  have "binade x = int (fl - 1)" "binade x + 1 = int fl"
    using assms fl1 by (simp_all add: binade_def fl_def n_def)
  then have e: "2 powi binade x = (2::real) ^ (fl - 1)" "2 powi (binade x + 1) = (2::real) ^ fl"
    by (simp_all only: power_int_of_nat)
  have nx: "real n \<le> x" "x < real n + 1"
    using assms by (simp_all add: n_def)
  have "(2::real) ^ (fl - 1) \<le> real n"
    using b(1) by (metis of_nat_le_iff of_nat_numeral of_nat_power)
  moreover have "real n + 1 \<le> 2 ^ fl"
  proof -
    have "n + 1 \<le> 2 ^ fl" using b(2) by simp
    then have "real (n + 1) \<le> real (2 ^ fl)" by (rule of_nat_mono)
    then show ?thesis by simp
  qed
  ultimately show ?thesis
    unfolding e using nx by linarith
qed

lemma binade_lt1:
  assumes "0 < x" "x < 1"
  shows "2 powi binade x \<le> x \<and> x < 2 powi (binade x + 1)"
proof -
  define y where "y = 1 / x"
  define m where "m = nat (\<lceil>y\<rceil> - 1)"
  define fl where "fl = floorlog 2 m"
  have y1: "1 < y" using assms by (simp add: y_def)
  have c2: "2 \<le> \<lceil>y\<rceil>" using y1 by (simp add: le_ceiling_iff)
  have m1: "1 \<le> m" using c2 unfolding m_def by linarith
  have mi: "int m = \<lceil>y\<rceil> - 1" using c2 unfolding m_def by linarith
  have "real_of_int (int m) < y" "y \<le> real_of_int (int m) + 1"
    unfolding mi by linarith+
  then have my: "real m < y" "y \<le> real m + 1"
    by simp_all
  have b: "2 ^ (fl - 1) \<le> m" "m < 2 ^ fl"
    using floorlog_bounds [of m 2] m1 by (simp_all add: fl_def)
  have fl1: "1 \<le> fl" using b(2) m1 by (cases fl) simp_all
  have "binade x = - int fl" "binade x + 1 = - int (fl - 1)"
    using assms fl1 by (simp_all add: binade_def fl_def m_def y_def)
  then have e: "2 powi binade x = 1 / (2::real) ^ fl"
    "2 powi (binade x + 1) = 1 / (2::real) ^ (fl - 1)"
    by (simp_all only: power_int_minus power_int_of_nat inverse_eq_divide)
  have lo: "(2::real) ^ (fl - 1) \<le> real m"
    using b(1) by (metis of_nat_le_iff of_nat_numeral of_nat_power)
  have hi: "real m + 1 \<le> 2 ^ fl"
  proof -
    have "m + 1 \<le> 2 ^ fl" using b(2) by simp
    then have "real (m + 1) \<le> real (2 ^ fl)" by (rule of_nat_mono)
    then show ?thesis by simp
  qed
  have "1 / x \<le> 2 ^ fl" using my(2) hi by (simp add: y_def)
  then have a: "1 / 2 ^ fl \<le> x"
    using assms(1) by (simp add: field_simps)
  have "2 ^ (fl - 1) < 1 / x" using my(1) lo unfolding y_def by linarith
  then have c: "x < 1 / 2 ^ (fl - 1)"
    using assms(1) by (simp add: field_simps)
  show ?thesis
    unfolding e using a c by simp
qed

lemma binade_bounds:
  assumes "0 < x"
  shows "2 powi binade x \<le> x" and "x < 2 powi (binade x + 1)"
  using binade_ge1 [of x] binade_lt1 [of x] assms by (cases "1 \<le> x"; simp)+


lemma round_even_of_int: "round_even (of_int k) = k"
  by (simp add: round_even_def)






lemma round_to_0: "round_to p 0 = 0"
  by (simp add: round_to_def)





text \<open>Whole numbers below \<open>2 ^ p\<close> are not changed.\<close>

lemma round_to_whole:
  assumes "x \<in> \<int>" "\<bar>x\<bar> < 2 ^ p" "0 < p"
  shows "round_to p x = x"
proof (cases "x = 0")
  case True
  then show ?thesis by (simp add: round_to_0)
next
  case False
  obtain k where k: "x = of_int k" using assms(1) by (auto simp: Ints_def)
  have ax: "1 \<le> \<bar>x\<bar>" using False k by (simp flip: of_int_abs)
  define e where "e = binade \<bar>x\<bar>"
  have "2 powi e \<le> \<bar>x\<bar>" using binade_bounds(1) [of "\<bar>x\<bar>"] ax by (simp add: e_def)
  then have "(2::real) powi e < 2 powi (int p)" using assms(2) by simp
  then have "e < int p"
    using power_int_increasing [of "int p" e "2::real"] by (cases "e < int p") simp_all
  then have ep: "e \<le> int p - 1" by simp
  define j where "j = nat (int p - 1 - e)"
  have u: "(2::real) powi (e - (int p - 1)) = 1 / 2 ^ j"
  proof -
    have "e - (int p - 1) = - int j" using ep by (simp add: j_def)
    then show ?thesis by (simp only: power_int_minus power_int_of_nat inverse_eq_divide)
  qed
  have r: "round_to p x
             = of_int (round_even (x / 2 powi (e - (int p - 1)))) * 2 powi (e - (int p - 1))"
    using False by (simp add: round_to_def Let_def e_def)
  have "x / (1 / 2 ^ j) = of_int (k * 2 ^ j)" by (simp add: k)
  then have "round_even (x / (1 / 2 ^ j)) = k * 2 ^ j" by (simp only: round_even_of_int)
  then have "round_to p x = of_int (k * 2 ^ j) * (1 / 2 ^ j)"
    unfolding r u by simp
  then show ?thesis by (simp add: k)
qed

lemma to_double_whole: "x \<in> \<int> \<Longrightarrow> \<bar>x\<bar> < 9007199254740992 \<Longrightarrow> to_double x = x"
  unfolding to_double_def by (rule round_to_whole) simp_all

lemma to_float_whole: "x \<in> \<int> \<Longrightarrow> \<bar>x\<bar> < 16777216 \<Longrightarrow> to_float x = x"
  unfolding to_float_def by (rule round_to_whole) simp_all



subsection \<open>The degrees of a finite angle\<close>






subsection \<open>The mailbox\<close>

lemma publish_all:
  "vs \<noteq> [] \<Longrightarrow>
     foldl (\<lambda>mb v. publish v mb) mb vs = \<lparr>slot = Some (last vs), waiting = False\<rparr>"
  by (induction vs arbitrary: mb rule: rev_induct) (simp_all add: publish_def)

subsection \<open>The rectangle of the low-res stage\<close>

lemma rect_and_frame:
  "0 \<le> rect_x (rect_and a (frame_rect m)) \<and> 0 \<le> rect_y (rect_and a (frame_rect m))
   \<and> rect_x (rect_and a (frame_rect m)) + rect_width (rect_and a (frame_rect m)) \<le> int (cols m)
   \<and> rect_y (rect_and a (frame_rect m)) + rect_height (rect_and a (frame_rect m)) \<le> int (rows m)"
  by (simp add: rect_and_def frame_rect_def Let_def)

lemma rect_and_empty:
  assumes "rect_is_empty (rect_and a b)"
  shows "rect_and a b = \<lparr>rect_x = 0, rect_y = 0, rect_width = 0, rect_height = 0\<rparr>"
  using assms by (auto simp: rect_is_empty_def rect_and_def Let_def split: if_splits)

lemma lowRes_published:
  assumes "lowResThread_iter dets s = (Published rr, s')"
  shows "\<exists>fd det rest. slot (cap_frame s) = Some fd \<and> dets = det # rest
          \<and> rr = \<lparr>rr_data = fd,
                rr_roi = rect_and (roi_unclipped (frame fd) det) (frame_rect (frame fd)),
                rr_valid = True\<rparr>"
  using assms
  by (auto simp: lowResThread_iter_def waitAndTake_def lowRes_cycle_def
      split: if_splits option.splits list.splits)

lemma lowRes_takes_and_publishes:
  assumes "running s" and "\<not> waiting (cap_frame s)" and "slot (cap_frame s) = Some fd"
  shows "lowResThread_iter (det # dets) s
           = (Published \<lparr>rr_data = fd,
                  rr_roi = rect_and (roi_unclipped (frame fd) det) (frame_rect (frame fd)),
                  rr_valid = True\<rparr>,
              s\<lparr>cap_frame := (cap_frame s)\<lparr>slot := None\<rparr>,
                roi_result := \<lparr>slot = Some \<lparr>rr_data = fd,
                  rr_roi = rect_and (roi_unclipped (frame fd) det) (frame_rect (frame fd)),
                  rr_valid = True\<rparr>, waiting = False\<rparr>\<rparr>)"
  using assms
  by (simp add: lowResThread_iter_def waitAndTake_def lowRes_cycle_def publish_def)















subsection \<open>Iterations without a detection, and suspended consumers\<close>

lemma lowRes_no_detection:
  "fst (lowResThread_iter [] s) \<in> {Blocked, Terminated, NoDetection}
   \<and> roi_result (snd (lowResThread_iter [] s)) = roi_result s
   \<and> running (snd (lowResThread_iter [] s)) = running s"
  by (simp add: lowResThread_iter_def waitAndTake_def lowRes_cycle_def split: option.splits)

lemma highRes_blocked:
  assumes "slot (roi_result s) = None" and "running s"
  shows "fst (highResThread_iter geo K D dets s) = Blocked"
  using assms by (simp add: highResThread_iter_def waitAndTake_def)

lemma stuck_capture: "highRes_stuck s \<Longrightarrow> highRes_stuck (snd (captureThread_step sample s))"
  by (simp add: highRes_stuck_def captureThread_step_def Let_def split: option.splits)

lemma stuck_lowRes: "highRes_stuck s \<Longrightarrow> highRes_stuck (snd (lowResThread_iter dets s))"
  by (simp add: highRes_stuck_def lowResThread_iter_def waitAndTake_def split: option.splits)

lemma stuck_highRes: "highRes_stuck s \<Longrightarrow> highResThread_iter geo K D dets s = (Blocked, s)"
  by (simp add: highRes_stuck_def highResThread_iter_def waitAndTake_def)

lemma stuck_vis: "highRes_stuck s \<Longrightarrow> highRes_stuck (snd (visThread_iter key s))"
  by (simp add: highRes_stuck_def visThread_iter_def waitAndTake_def split: option.splits)

lemma stuck_step: "highRes_stuck s \<Longrightarrow> highRes_stuck (step geo K D s a)"
  by (cases a) (simp_all add: stuck_capture stuck_lowRes stuck_highRes stuck_vis)

lemma stuck_run: "highRes_stuck s \<Longrightarrow> highRes_stuck (run geo K D acts s)"
  unfolding run_def by (induction acts arbitrary: s) (simp_all add: stuck_step)

subsection \<open>Validity flags along every schedule\<close>

lemma all_valid_initial: "all_valid initial"
  by (simp add: all_valid_def initial_def empty_mailbox_def)

lemma all_valid_capture: "all_valid s \<Longrightarrow> all_valid (snd (captureThread_step sample s))"
  by (simp add: all_valid_def captureThread_step_def Let_def split: option.splits)

lemma all_valid_lowRes: "all_valid s \<Longrightarrow> all_valid (snd (lowResThread_iter dets s))"
  by (auto simp: all_valid_def lowResThread_iter_def waitAndTake_def lowRes_cycle_def publish_def
      split: option.splits list.splits)

lemma highRes_cycle_valid: "highRes_cycle geo K D dets rr = Published pr \<Longrightarrow> pr_valid pr"
  by (auto simp: highRes_cycle_def Let_def split: if_splits list.splits)

lemma all_valid_highRes: "all_valid s \<Longrightarrow> all_valid (snd (highResThread_iter geo K D dets s))"
  by (auto simp: all_valid_def highResThread_iter_def waitAndTake_def publish_def
      dest: highRes_cycle_valid split: option.splits outcome.splits)

lemma all_valid_vis: "all_valid s \<Longrightarrow> all_valid (snd (visThread_iter key s))"
  by (auto simp: all_valid_def visThread_iter_def waitAndTake_def split: option.splits)

lemma all_valid_step: "all_valid s \<Longrightarrow> all_valid (step geo K D s a)"
  by (cases a) (simp_all add: all_valid_capture all_valid_lowRes all_valid_highRes all_valid_vis)

lemma all_valid_run: "all_valid s \<Longrightarrow> all_valid (run geo K D acts s)"
  unfolding run_def by (induction acts arbitrary: s) (simp_all add: all_valid_step)

lemma lowRes_publishes_valid: "lowResThread_iter dets s = (Published rr, s') \<Longrightarrow> rr_valid rr"
  using lowRes_published by fastforce

lemma highRes_publishes_valid:
  "highResThread_iter geo K D dets s = (Published pr, s') \<Longrightarrow> pr_valid pr"
  by (auto simp: highResThread_iter_def waitAndTake_def
      dest: highRes_cycle_valid split: if_splits option.splits outcome.splits)

lemma highRes_never_skips:
  "all_valid s \<Longrightarrow> fst (highResThread_iter geo K D dets s) \<noteq> SkipInvalid"
  by (auto simp: all_valid_def highResThread_iter_def waitAndTake_def highRes_cycle_def Let_def
      split: option.splits list.splits)

lemma vis_never_skips: "all_valid s \<Longrightarrow> fst (visThread_iter key s) \<noteq> SkipInvalid"
  by (auto simp: all_valid_def visThread_iter_def waitAndTake_def split: option.splits)

subsection \<open>What the high-res stage publishes\<close>




subsection \<open>The concrete runs\<close>

lemma scale_low: "scale_x (frame frame_low) = 1" "scale_y (frame frame_low) = 1"
  by (simp_all add: scale_x_def scale_y_def LOW_W_def LOW_H_def frame_low_def to_float_whole)

lemma run_capture:
  "run geo K D [Capture None, Capture (Some sample_low)] initial = with_frame"
  by (simp add: run_def captureThread_step_def publish_def Let_def sample_low_def frame_low_def
      with_frame_def initial_def empty_mailbox_def)

lemma roi_unclipped_inside:
  "roi_unclipped (frame frame_low) det_inside
     = \<lparr>rect_x = 520, rect_y = 320, rect_width = 190, rect_height = 230\<rparr>"
  by (simp add: roi_unclipped_def scale_low bbox_def det_inside_def to_double_whole to_int_def
      ROI_PAD_def)

lemma roi_unclipped_outside:
  "roi_unclipped (frame frame_low) det_outside
     = \<lparr>rect_x = - 380, rect_y = - 70, rect_width = 170, rect_height = 170\<rparr>"
  by (simp add: roi_unclipped_def scale_low bbox_def det_outside_def to_double_whole to_int_def
      ROI_PAD_def)

lemma frame_rect_low:
  "frame_rect (frame frame_low) = \<lparr>rect_x = 0, rect_y = 0, rect_width = 640, rect_height = 480\<rparr>"
  by (simp add: frame_rect_def frame_low_def)

lemma clip_inside:
  "rect_and (roi_unclipped (frame frame_low) det_inside) (frame_rect (frame frame_low))
     = \<lparr>rect_x = 520, rect_y = 320, rect_width = 120, rect_height = 160\<rparr>"
  by (simp add: roi_unclipped_inside frame_rect_low rect_and_def)

lemma clip_outside:
  "rect_and (roi_unclipped (frame frame_low) det_outside) (frame_rect (frame frame_low))
     = \<lparr>rect_x = 0, rect_y = 0, rect_width = 0, rect_height = 0\<rparr>"
  by (simp add: roi_unclipped_outside frame_rect_low rect_and_def)

lemma iter_lowRes_inside:
  "lowResThread_iter [det_inside] with_frame = (Published roi_inside, with_roi)"
  by (simp add: lowResThread_iter_def waitAndTake_def lowRes_cycle_def publish_def
      clip_inside with_frame_def with_roi_def roi_inside_def initial_def empty_mailbox_def)

text \<open>
  Two places where the rounding shows. At scale 1 the difference of 301.5 and
  \<open>100.5 + 2 ^ -46\<close> rounds up to 201 before it is truncated, so the width is 361 and not
  360; and for a frame 2028 pixels wide the \<open>float\<close> scale factor lies above 2028 / 640.
\<close>

lemma rounded_difference_width:
  "rect_width (roi_unclipped (frame frame_low)
     (Detection (100.5 + 1 / 2 ^ 46, 50) (301.5, 50) (301.5, 250) (100.5 + 1 / 2 ^ 46, 250)))
   = 361"
proof -
  have d: "to_double (301.5 - (100.5 + 1 / 2 ^ 46)) = 201"
    by code_simp
  have b: "bbox (Detection (100.5 + 1 / 2 ^ 46, 50) (301.5, 50) (301.5, 250)
                   (100.5 + 1 / 2 ^ 46, 250))
             = (100.5 + 1 / 2 ^ 46, 50, 301.5, 250)"
    by (simp add: bbox_def)
  show ?thesis
    unfolding roi_unclipped_def b scale_low
    by (simp only: prod.case Let_def d Rect.simps) (simp add: to_double_whole to_int_def ROI_PAD_def)
qed

lemma float_scale_of_2028: "scale_x \<lparr>cols = 2028, rows = 1520\<rparr> = 13290701 / 2 ^ 22"
proof -
  have "to_float (to_float 2028 / 640) = 13290701 / 2 ^ 22"
    by code_simp
  then show ?thesis by (simp add: scale_x_def LOW_W_def)
qed

lemma iter_lowRes_outside:
  "lowResThread_iter [det_outside] with_frame
     = (Published roi_collapsed,
        initial\<lparr>roi_result := \<lparr>slot = Some roi_collapsed, waiting = False\<rparr>\<rparr>)"
  by (simp add: lowResThread_iter_def waitAndTake_def lowRes_cycle_def publish_def
      clip_outside with_frame_def roi_collapsed_def initial_def empty_mailbox_def)

lemma run_lowRes:
  "run geo K D [Capture None, Capture (Some sample_low), LowRes [det_inside]] initial = with_roi"
proof -
  have "run geo K D [Capture None, Capture (Some sample_low), LowRes [det_inside]] initial
          = snd (lowResThread_iter [det_inside]
                   (run geo K D [Capture None, Capture (Some sample_low)] initial))"
    by (simp add: run_def)
  then show ?thesis
    by (simp add: run_capture iter_lowRes_inside)
qed

lemma degrees_of_zero: "times_180_over_pi (Finite 0) = Finite 0"
  by (simp add: to_double_def round_to_0)

lemma iter_highRes_frontal:
  "highResThread_iter geometry_frontal K_main D_main [det_inside] with_roi
     = (Published pose_frontal, with_pose)"
  by (simp add: highResThread_iter_def waitAndTake_def highRes_cycle_def publish_def Let_def
      degrees_of_zero geometry_frontal_def with_roi_def roi_inside_def pose_frontal_def
      with_pose_def initial_def empty_mailbox_def
      del: times_180_over_pi.simps)

lemma iter_highRes_failing:
  "highResThread_iter geometry_failing K_main D_main [det_inside] with_roi
     = (Published pose_nan, initial\<lparr>pose_result := \<lparr>slot = Some pose_nan, waiting = False\<rparr>\<rparr>)"
  by (simp add: highResThread_iter_def waitAndTake_def highRes_cycle_def publish_def Let_def
      geometry_failing_def with_roi_def roi_inside_def pose_nan_def initial_def
      empty_mailbox_def)


lemma after_quit_state:
  "after_quit
     = \<lparr>running = False, cap_frame = \<lparr>slot = None, waiting = True\<rparr>,
        roi_result = \<lparr>slot = None, waiting = True\<rparr>,
        pose_result = \<lparr>slot = None, waiting = False\<rparr>, capture_in_pull = True\<rparr>"
proof -
  have a: "run geometry_frontal K_main D_main
             [LowRes [], HighRes [], Capture None, Capture (Some sample_low)] initial
           = initial\<lparr>cap_frame := \<lparr>slot = Some frame_low, waiting = False\<rparr>,
                      roi_result := \<lparr>slot = None, waiting = True\<rparr>\<rparr>"
    by (simp add: run_def lowResThread_iter_def highResThread_iter_def waitAndTake_def
        captureThread_step_def publish_def Let_def sample_low_def frame_low_def initial_def
        empty_mailbox_def)
  have b: "lowResThread_iter [det_inside]
             (initial\<lparr>cap_frame := \<lparr>slot = Some frame_low, waiting = False\<rparr>,
                       roi_result := \<lparr>slot = None, waiting = True\<rparr>\<rparr>)
           = (Published roi_inside, with_roi)"
    by (simp add: lowResThread_iter_def waitAndTake_def lowRes_cycle_def publish_def
        clip_inside with_roi_def roi_inside_def initial_def empty_mailbox_def)
  have c: "run geometry_frontal K_main D_main [LowRes [], HighRes [], Capture None, Vis 113]
             with_pose
           = \<lparr>running = False, cap_frame = \<lparr>slot = None, waiting = True\<rparr>,
              roi_result = \<lparr>slot = None, waiting = True\<rparr>,
              pose_result = \<lparr>slot = None, waiting = False\<rparr>, capture_in_pull = True\<rparr>"
    by (simp add: run_def lowResThread_iter_def highResThread_iter_def visThread_iter_def
        waitAndTake_def captureThread_step_def with_pose_def pose_frontal_def initial_def
        empty_mailbox_def)
  have "after_quit
          = run geometry_frontal K_main D_main [LowRes [], HighRes [], Capture None, Vis 113]
              (snd (highResThread_iter geometry_frontal K_main D_main [det_inside]
                 (snd (lowResThread_iter [det_inside]
                    (run geometry_frontal K_main D_main
                       [LowRes [], HighRes [], Capture None, Capture (Some sample_low)]
                       initial)))))"
    by (simp add: after_quit_def quit_schedule_def run_def)
  then show ?thesis
    by (simp add: a b iter_highRes_frontal c)
qed

section \<open>The claims\<close>

subsection \<open>C1: what the quit key does to suspended stages\<close>

text \<open>
  C1, evaluated on the program. The schedule \<open>quit_schedule\<close> ends with the key \<open>q\<close> while
  the low-res and the high-res thread are suspended on their empty mailboxes and the
  capture thread waits in its pull. The last step clears \<open>running\<close> and notifies nobody.
  The low-res thread is still blocked then; it stays blocked when the pull times out, and
  when the pull delivers a frame the capture thread publishes it after the flag was
  cleared, which wakes the low-res thread, and that thread leaves its loop without
  publishing. So in every continuation of the schedule, late capture or not, nothing is
  ever published to mailbox B and nobody notifies its condition variable: the high-res
  thread stays blocked in its wait and never gets a stopped indication.
\<close>

theorem shutdown_leaves_highRes_blocked:
  "\<not> running after_quit \<and> capture_in_pull after_quit
   \<and> fst (lowResThread_iter dets after_quit) = Blocked
   \<and> fst (lowResThread_iter dets (snd (captureThread_step None after_quit))) = Blocked
   \<and> fst (captureThread_step (Some sample_low) after_quit) = Published frame_low
   \<and> fst (lowResThread_iter dets (snd (captureThread_step (Some sample_low) after_quit)))
       = Terminated
   \<and> fst (highResThread_iter geo K D dets' (run geo K D acts after_quit)) = Blocked"
proof -
  have q: "highRes_stuck after_quit"
    unfolding after_quit_state by (simp add: highRes_stuck_def)
  have "highRes_stuck (run geo K D acts after_quit)"
    using q by (rule stuck_run)
  then have h: "fst (highResThread_iter geo K D dets' (run geo K D acts after_quit)) = Blocked"
    by (simp add: stuck_highRes)
  have l: "\<not> running after_quit \<and> capture_in_pull after_quit
     \<and> fst (lowResThread_iter dets after_quit) = Blocked
     \<and> fst (lowResThread_iter dets (snd (captureThread_step None after_quit))) = Blocked
     \<and> fst (captureThread_step (Some sample_low) after_quit) = Published frame_low
     \<and> fst (lowResThread_iter dets (snd (captureThread_step (Some sample_low) after_quit)))
         = Terminated"
    unfolding after_quit_state
    by (simp add: lowResThread_iter_def waitAndTake_def captureThread_step_def publish_def
        Let_def sample_low_def frame_low_def)
  from l h show ?thesis by simp
qed

subsection \<open>C2: the latest published value wins\<close>

text \<open>
  C2. For each of the three mailboxes: when one or more values are published in
  succession with no take in between, the slot then holds the last of them, a
  \<open>waitAndTake\<close> of the running pipeline returns exactly that last value and leaves the
  mailbox empty, and the next \<open>waitAndTake\<close> finds nothing, so that none of the earlier
  values ever reaches the consumer.
\<close>

theorem mailbox_latest_wins:
  assumes "vs \<noteq> []"
  shows "slot (foldl (\<lambda>mb v. publish v mb) mb vs) = Some (last vs)
       \<and> waitAndTake True (foldl (\<lambda>mb v. publish v mb) mb vs) = (Took (last vs), empty_mailbox)
       \<and> fst (waitAndTake True (snd (waitAndTake True (foldl (\<lambda>mb v. publish v mb) mb vs))))
           = WouldBlock"
  using assms by (simp add: publish_all waitAndTake_def empty_mailbox_def)

text \<open>Three frames published to mailbox A; the consumer sees the third.\<close>

theorem mailbox_latest_wins_witness:
  "[frame_low\<lparr>t_cam_ns := 1\<rparr>, frame_low\<lparr>t_cam_ns := 2\<rparr>, frame_low\<lparr>t_cam_ns := 3\<rparr>] \<noteq> []
   \<and> waitAndTake True
        (foldl (\<lambda>mb v. publish v mb) (cap_frame initial)
           [frame_low\<lparr>t_cam_ns := 1\<rparr>, frame_low\<lparr>t_cam_ns := 2\<rparr>, frame_low\<lparr>t_cam_ns := 3\<rparr>])
       = (Took (frame_low\<lparr>t_cam_ns := 3\<rparr>), empty_mailbox)"
  using mailbox_latest_wins
    [of "[frame_low\<lparr>t_cam_ns := 1\<rparr>, frame_low\<lparr>t_cam_ns := 2\<rparr>, frame_low\<lparr>t_cam_ns := 3\<rparr>]"
        "cap_frame initial"]
  by simp

subsection \<open>C3: a published rectangle lies within its frame\<close>

text \<open>
  C3. Every ROI Result that the low-res stage publishes with \<open>valid = true\<close> has its
  rectangle inside the frame it was computed from: \<open>0 \<le> x\<close>, \<open>0 \<le> y\<close>,
  \<open>x + w \<le> cols\<close> and \<open>y + h \<le> rows\<close>, for every frame and every list of detections.
\<close>

theorem roi_within_frame:
  assumes "lowResThread_iter dets s = (Published rr, s')" and "rr_valid rr"
  shows "0 \<le> rect_x (rr_roi rr) \<and> 0 \<le> rect_y (rr_roi rr)
       \<and> rect_x (rr_roi rr) + rect_width (rr_roi rr) \<le> int (cols (frame (rr_data rr)))
       \<and> rect_y (rr_roi rr) + rect_height (rr_roi rr) \<le> int (rows (frame (rr_data rr)))"
proof -
  from lowRes_published [OF assms(1)] obtain fd det where
    "rr_roi rr = rect_and (roi_unclipped (frame fd) det) (frame_rect (frame fd))"
    and "rr_data rr = fd"
    by auto
  then show ?thesis
    using rect_and_frame [of "roi_unclipped (frame fd) det" "frame fd"] by simp
qed

text \<open>
  A marker near the corner of a 640 x 480 frame: the padded box (520, 320, 190, 230) is
  cut to (520, 320, 120, 160).
\<close>

theorem roi_within_frame_witness:
  "lowResThread_iter [det_inside] with_frame = (Published roi_inside, with_roi)
   \<and> rr_valid roi_inside
   \<and> roi_unclipped (frame frame_low) det_inside
       = \<lparr>rect_x = 520, rect_y = 320, rect_width = 190, rect_height = 230\<rparr>
   \<and> rect_x (rr_roi roi_inside) + rect_width (rr_roi roi_inside) \<le> 640
   \<and> rect_y (rr_roi roi_inside) + rect_height (rr_roi roi_inside) \<le> 480"
proof -
  have v: "rr_valid roi_inside" by (simp add: roi_inside_def)
  have d: "rr_data roi_inside = frame_low" by (simp add: roi_inside_def)
  from roi_within_frame [OF iter_lowRes_inside v] iter_lowRes_inside v roi_unclipped_inside
  show ?thesis by (simp add: d frame_low_def)
qed

subsection \<open>C4: a rectangle that clipping empties\<close>

text \<open>
  C4, as the program has it. In every cycle in which the low-res stage takes a frame and
  the detector returns at least one detection, the stage publishes to mailbox B an ROI
  Result with \<open>valid = true\<close> for that frame, whose rectangle is the clipped rectangle of
  detection 0, whatever clipping leaves of it; when clipping leaves no area, that
  rectangle is the all-zero one.
\<close>

theorem roi_published_for_every_detection:
  assumes "running s" and "\<not> waiting (cap_frame s)" and "slot (cap_frame s) = Some fd"
  shows "\<exists>rr. fst (lowResThread_iter (det # dets) s) = Published rr
            \<and> slot (roi_result (snd (lowResThread_iter (det # dets) s))) = Some rr
            \<and> rr_valid rr \<and> rr_data rr = fd
            \<and> rr_roi rr = rect_and (roi_unclipped (frame fd) det) (frame_rect (frame fd))
            \<and> (rect_is_empty (rr_roi rr) \<longrightarrow>
                 rr_roi rr = \<lparr>rect_x = 0, rect_y = 0, rect_width = 0, rect_height = 0\<rparr>)"
  using rect_and_empty [of "roi_unclipped (frame fd) det" "frame_rect (frame fd)"]
  by (simp add: lowRes_takes_and_publishes [OF assms])

text \<open>
  From the same state, an ordinary detection is published with its clipped rectangle and
  a detection whose rectangle collapses is published with the all-zero rectangle.
\<close>

theorem roi_published_for_every_detection_witness:
  "running with_frame \<and> \<not> waiting (cap_frame with_frame)
   \<and> slot (cap_frame with_frame) = Some frame_low
   \<and> fst (lowResThread_iter [det_inside] with_frame) = Published roi_inside
   \<and> \<not> rect_is_empty (rr_roi roi_inside)
   \<and> rect_is_empty
       (rect_and (roi_unclipped (frame frame_low) det_outside) (frame_rect (frame frame_low)))
   \<and> (\<exists>rr. fst (lowResThread_iter [det_outside] with_frame) = Published rr
          \<and> rr_valid rr
          \<and> rr_roi rr = \<lparr>rect_x = 0, rect_y = 0, rect_width = 0, rect_height = 0\<rparr>)"
proof -
  have h: "running with_frame" "\<not> waiting (cap_frame with_frame)"
    "slot (cap_frame with_frame) = Some frame_low"
    by (simp_all add: with_frame_def initial_def empty_mailbox_def)
  have e: "rect_is_empty
       (rect_and (roi_unclipped (frame frame_low) det_outside) (frame_rect (frame frame_low)))"
    by (simp add: clip_outside rect_is_empty_def)
  have i: "fst (lowResThread_iter [det_inside] with_frame) = Published roi_inside"
    "\<not> rect_is_empty (rr_roi roi_inside)"
    by (simp_all add: iter_lowRes_inside roi_inside_def rect_is_empty_def)
  from roi_published_for_every_detection [OF h, of det_outside "[]"] obtain rr where
    "fst (lowResThread_iter [det_outside] with_frame) = Published rr" "rr_valid rr"
    "rr_roi rr
       = rect_and (roi_unclipped (frame frame_low) det_outside) (frame_rect (frame frame_low))"
    "rect_is_empty (rr_roi rr) \<longrightarrow>
       rr_roi rr = \<lparr>rect_x = 0, rect_y = 0, rect_width = 0, rect_height = 0\<rparr>"
    by blast
  with e h i show ?thesis by auto
qed

text \<open>
  C4, as stated, fails: for corners far to the left of a 640 x 480 frame the clipped
  rectangle is empty, and the stage publishes an ROI Result to mailbox B all the same.
\<close>

theorem empty_roi_published_counterexample:
  "rect_is_empty
     (rect_and (roi_unclipped (frame frame_low) det_outside) (frame_rect (frame frame_low)))
   \<and> lowResThread_iter [det_outside] with_frame
       = (Published roi_collapsed,
          initial\<lparr>roi_result := \<lparr>slot = Some roi_collapsed, waiting = False\<rparr>\<rparr>)"
  by (simp add: clip_outside rect_is_empty_def iter_lowRes_outside)

subsection \<open>C5: the two detector configurations\<close>

text \<open>
  C5, as the program has it. The low-res stage sets \<open>quad_decimate\<close> to 1 (no decimation)
  and the worker count to 1; the high-res stage sets \<open>quad_decimate\<close> to 3 and keeps the
  library's worker count. The decimation of the high-res stage is thus the coarser of the
  two: a larger factor searches a more reduced image.
\<close>

theorem detector_configuration:
  "quad_decimate (lowRes_detector td) = 1 \<and> nthreads (lowRes_detector td) = 1
   \<and> quad_decimate (highRes_detector td) = 3 \<and> nthreads (highRes_detector td) = nthreads td
   \<and> quad_decimate (lowRes_detector td) < quad_decimate (highRes_detector td)"
  by (simp add: highRes_detector_def lowRes_detector_def)

text \<open>
  C5, as stated, fails: a finer search is a smaller decimation factor, and the factor of
  the high-res stage is not below that of the low-res stage.
\<close>

theorem precision_search_finer_counterexample:
  "\<not> quad_decimate (highRes_detector detector_default)
       < quad_decimate (lowRes_detector detector_default)"
  by (simp add: highRes_detector_def lowRes_detector_def detector_default_def)

subsection \<open>C6: the solver's result is not inspected\<close>

text \<open>
  C6, as the program has it. The high-res stage does not look at what the solver returns:
  in every cycle that takes a valid ROI Result and has a detection it publishes a Pose
  Result with \<open>valid = true\<close> that carries the solver's translation, whatever the solver
  reported and whatever the vectors are.
\<close>

theorem solver_result_published_unchecked:
  assumes "running s" and "\<not> waiting (roi_result s)" and "slot (roi_result s) = Some rr"
    and "rr_valid rr"
  shows "\<exists>pr. fst (highResThread_iter geo K D (det # dets) s) = Published pr
            \<and> slot (pose_result (snd (highResThread_iter geo K D (det # dets) s))) = Some pr
            \<and> pr_valid pr
            \<and> pr_tvec pr = solve_tvec (solvePnP geo obj_pts (img_pts (rr_roi rr) det) K D)"
  using assms
  by (simp add: highResThread_iter_def waitAndTake_def highRes_cycle_def publish_def Let_def)

theorem solver_result_published_unchecked_witness:
  "running with_roi \<and> \<not> waiting (roi_result with_roi)
   \<and> slot (roi_result with_roi) = Some roi_inside \<and> rr_valid roi_inside
   \<and> (\<exists>pr. fst (highResThread_iter geometry_failing K_main D_main [det_inside] with_roi)
              = Published pr
          \<and> pr_valid pr \<and> pr_tvec pr = (NaN, NaN, NaN))"
proof -
  have h: "running with_roi" "\<not> waiting (roi_result with_roi)"
    "slot (roi_result with_roi) = Some roi_inside" "rr_valid roi_inside"
    by (simp_all add: with_roi_def roi_inside_def initial_def empty_mailbox_def)
  have t: "solve_tvec (solvePnP geometry_failing obj_pts (img_pts (rr_roi roi_inside) det_inside)
                         K_main D_main) = (NaN, NaN, NaN)"
    by (simp add: geometry_failing_def)
  from solver_result_published_unchecked
    [OF h, of geometry_failing K_main D_main det_inside "[]"]
  show ?thesis using h t by auto
qed

text \<open>
  C6, as stated, fails: with a solver that reports failure and returns non-finite
  vectors, the cycle is not dropped; a Pose Result made of those vectors goes to
  mailbox C.
\<close>

theorem solver_failure_published_counterexample:
  "solve_ok (solvePnP geometry_failing obj_pts (img_pts (rr_roi roi_inside) det_inside)
               K_main D_main) = False
   \<and> highResThread_iter geometry_failing K_main D_main [det_inside] with_roi
       = (Published pose_nan, initial\<lparr>pose_result := \<lparr>slot = Some pose_nan, waiting = False\<rparr>\<rparr>)"
  by (simp add: iter_highRes_failing) (simp add: geometry_failing_def)

subsection \<open>C7: no detection, no ROI Result\<close>

text \<open>
  C7. When the detector returns no detection, the iteration of the low-res stage
  publishes nothing and leaves mailbox B as it was; so a high-res stage of the running
  pipeline that has nothing in mailbox B does no work in its next iteration: it is blocked
  on that mailbox.
\<close>

theorem no_detection_no_roi:
  "(\<forall>rr. fst (lowResThread_iter [] s) \<noteq> Published rr)
   \<and> roi_result (snd (lowResThread_iter [] s)) = roi_result s
   \<and> (running s \<and> slot (roi_result s) = None \<longrightarrow>
        fst (highResThread_iter geo K D dets (snd (lowResThread_iter [] s))) = Blocked)"
proof (intro conjI impI allI)
  fix rr
  show "fst (lowResThread_iter [] s) \<noteq> Published rr"
    using lowRes_no_detection [of s] by auto
next
  show "roi_result (snd (lowResThread_iter [] s)) = roi_result s"
    using lowRes_no_detection [of s] by simp
next
  assume "running s \<and> slot (roi_result s) = None"
  then have "slot (roi_result (snd (lowResThread_iter [] s))) = None"
    "running (snd (lowResThread_iter [] s))"
    using lowRes_no_detection [of s] by simp_all
  then show "fst (highResThread_iter geo K D dets (snd (lowResThread_iter [] s))) = Blocked"
    by (rule highRes_blocked)
qed

text \<open>A frame is taken, the detector finds nothing, and the high-res stage blocks.\<close>

theorem no_detection_no_roi_witness:
  "running with_frame \<and> slot (roi_result with_frame) = None
   \<and> fst (lowResThread_iter [] with_frame) = NoDetection
   \<and> fst (highResThread_iter geometry_frontal K_main D_main [det_inside]
            (snd (lowResThread_iter [] with_frame))) = Blocked"
proof -
  have h: "running with_frame \<and> slot (roi_result with_frame) = None"
    by (simp add: with_frame_def initial_def empty_mailbox_def)
  have n: "fst (lowResThread_iter [] with_frame) = NoDetection"
    by (simp add: lowResThread_iter_def waitAndTake_def lowRes_cycle_def with_frame_def
        initial_def empty_mailbox_def)
  from no_detection_no_roi [of with_frame geometry_frontal K_main D_main "[det_inside]"] h n
  show ?thesis by blast
qed

subsection \<open>C8: the yaw of a published pose\<close>




subsection \<open>C9: the rectangle at scale 1\<close>




subsection \<open>C10: every published result is valid\<close>

text \<open>
  C10. In every state that a schedule of the four threads reaches from the initial
  state, whatever the low-res stage publishes to mailbox B and whatever the high-res stage
  publishes to mailbox C has \<open>valid = true\<close>, every value waiting in those mailboxes has
  it too, and so neither the high-res stage nor the visualisation stage takes its
  skip-when-invalid branch.
\<close>

theorem published_results_valid:
  assumes "s = run geo K D acts initial"
  shows "(lowResThread_iter dets s = (Published rr, s1) \<longrightarrow> rr_valid rr)
       \<and> (highResThread_iter geo K D dets s = (Published pr, s2) \<longrightarrow> pr_valid pr)
       \<and> all_valid s
       \<and> fst (highResThread_iter geo K D dets s) \<noteq> SkipInvalid
       \<and> fst (visThread_iter key s) \<noteq> SkipInvalid"
proof -
  have v: "all_valid s"
    unfolding assms by (rule all_valid_run [OF all_valid_initial])
  show ?thesis
    using v lowRes_publishes_valid highRes_publishes_valid highRes_never_skips vis_never_skips
    by blast
qed

text \<open>
  After a capture the low-res stage publishes a valid ROI Result; after that the
  high-res stage publishes a valid Pose Result, which the visualisation stage shows.
\<close>

theorem published_results_valid_witness:
  "with_frame = run geometry_frontal K_main D_main
                  [Capture None, Capture (Some sample_low)] initial
   \<and> lowResThread_iter [det_inside] with_frame = (Published roi_inside, with_roi)
   \<and> rr_valid roi_inside
   \<and> with_roi = run geometry_frontal K_main D_main
                  [Capture None, Capture (Some sample_low), LowRes [det_inside]] initial
   \<and> highResThread_iter geometry_frontal K_main D_main [det_inside] with_roi
       = (Published pose_frontal, with_pose)
   \<and> pr_valid pose_frontal
   \<and> fst (highResThread_iter geometry_frontal K_main D_main [det_inside] with_roi) \<noteq> SkipInvalid
   \<and> fst (visThread_iter 0 with_pose) = Published pose_frontal"
proof -
  have r1: "with_frame = run geometry_frontal K_main D_main
                           [Capture None, Capture (Some sample_low)] initial"
    by (simp add: run_capture)
  have r2: "with_roi = run geometry_frontal K_main D_main
                         [Capture None, Capture (Some sample_low), LowRes [det_inside]] initial"
    by (simp add: run_lowRes)
  have v: "fst (visThread_iter 0 with_pose) = Published pose_frontal"
    by (simp add: visThread_iter_def waitAndTake_def with_pose_def pose_frontal_def initial_def
        empty_mailbox_def)
  from published_results_valid [OF r1, of "[det_inside]" roi_inside with_roi]
       published_results_valid [OF r2, of "[det_inside]" _ _ pose_frontal with_pose]
       r1 r2 iter_lowRes_inside iter_highRes_frontal v
  show ?thesis by blast
qed

end
